theory Spec2Isabelle
  imports Complex_Main "HOL-Library.Log_Nat" "HOL-Library.Sublist"
begin

section \<open>Python values\<close>

text \<open>
  A Python \<open>str\<close> is a sequence of Unicode code points. The texts of \<open>app.py\<close> that are
  not ASCII are written by their code points.
\<close>

type_synonym pystr = "nat list"

abbreviation (input) ustr :: "string \<Rightarrow> pystr" where
  "ustr s \<equiv> map of_char s"

subsection \<open>Floats: IEEE 754 binary64\<close>

text \<open>
  A Python \<open>float\<close> is a binary64 number: a finite value (held here as the rational it
  denotes), a negative zero, an infinity or a NaN. \<open>Fin 0\<close> is the positive zero.
\<close>

datatype pyfloat = Fin rat | NegZero | PInf | NInf | NaN

definition round_half_even :: "rat \<Rightarrow> int" where
  "round_half_even x =
     (let f = \<lfloor>x\<rfloor>; d = x - of_int f
      in if d < 1 / 2 then f
         else if 1 / 2 < d then f + 1
         else if even f then f else f + 1)"

definition pow2 :: "int \<Rightarrow> rat" where
  "pow2 k = (if 0 \<le> k then 2 ^ nat k else 1 / 2 ^ nat (- k))"

text \<open>The binary exponent of a positive rational: \<open>pow2 (ilog2 x) \<le> x < pow2 (ilog2 x + 1)\<close>.\<close>

definition ilog2 :: "rat \<Rightarrow> int" where
  "ilog2 x =
     (let d = bitlen (fst (quotient_of x)) - bitlen (snd (quotient_of x))
      in if pow2 d \<le> x then d else d - 1)"

text \<open>
  The spacing of binary64 numbers around \<open>x\<close>: 53 significant bits in the normal range,
  the fixed spacing \<open>2\<^sup>-\<^sup>1\<^sup>0\<^sup>7\<^sup>4\<close> among the subnormal numbers.
\<close>

definition quantum :: "rat \<Rightarrow> rat" where
  "quantum x = pow2 (max (ilog2 \<bar>x\<bar>) (- 1022) - 52)"

text \<open>
  Rounding of an exact result to binary64, to nearest with ties to even: what every
  IEEE 754 operation does with its exact result. A result of magnitude \<open>2\<^sup>1\<^sup>0\<^sup>2\<^sup>4\<close> or more
  after rounding overflows to an infinity; a result that rounds to zero keeps its sign.
\<close>

definition b64_round :: "rat \<Rightarrow> pyfloat" where
  "b64_round x =
     (if x = 0 then Fin 0
      else let y = of_int (round_half_even (x / quantum x)) * quantum x
           in if pow2 1024 \<le> \<bar>y\<bar> then (if 0 < x then PInf else NInf)
              else if y = 0 then (if 0 < x then Fin 0 else NegZero)
              else Fin y)"

fun is_zero :: "pyfloat \<Rightarrow> bool" where
  "is_zero (Fin x) = (x = 0)"
| "is_zero NegZero = True"
| "is_zero _ = False"

fun is_inf :: "pyfloat \<Rightarrow> bool" where
  "is_inf PInf = True"
| "is_inf NInf = True"
| "is_inf _ = False"

fun sign_bit :: "pyfloat \<Rightarrow> bool" where
  "sign_bit (Fin x) = (x < 0)"
| "sign_bit NegZero = True"
| "sign_bit NInf = True"
| "sign_bit _ = False"

definition signed_zero :: "bool \<Rightarrow> pyfloat" where
  "signed_zero neg = (if neg then NegZero else Fin 0)"

definition signed_inf :: "bool \<Rightarrow> pyfloat" where
  "signed_inf neg = (if neg then NInf else PInf)"

text \<open>The rational a finite float denotes (both zeros denote 0).\<close>

fun fin_val :: "pyfloat \<Rightarrow> rat" where
  "fin_val (Fin x) = x"
| "fin_val _ = 0"

text \<open>IEEE 754 division, for a divisor that is not a zero.\<close>

definition ieee_div :: "pyfloat \<Rightarrow> pyfloat \<Rightarrow> pyfloat" where
  "ieee_div a b =
     (if a = NaN \<or> b = NaN then NaN
      else if is_inf a then (if is_inf b then NaN else signed_inf (sign_bit a \<noteq> sign_bit b))
      else if is_inf b \<or> is_zero a then signed_zero (sign_bit a \<noteq> sign_bit b)
      else b64_round (fin_val a / fin_val b))"

text \<open>IEEE 754 multiplication.\<close>

definition ieee_mul :: "pyfloat \<Rightarrow> pyfloat \<Rightarrow> pyfloat" where
  "ieee_mul a b =
     (if a = NaN \<or> b = NaN then NaN
      else if is_inf a \<or> is_inf b then
        (if is_zero a \<or> is_zero b then NaN else signed_inf (sign_bit a \<noteq> sign_bit b))
      else if is_zero a \<or> is_zero b then signed_zero (sign_bit a \<noteq> sign_bit b)
      else b64_round (fin_val a * fin_val b))"

subsection \<open>Exceptions and values\<close>

text \<open>
  The exceptions the handler can meet. \<open>ClientError\<close> is the exchange client's error for a
  rejected request; \<open>app.py\<close> reads its attributes \<open>code\<close> and \<open>message\<close>.
  \<open>ExternalError\<close> stands for any other exception a collaborator raises (a network
  failure, a server error, a rejected HTTP body), with its text.
\<close>

datatype pyexn =
    AttributeError | TypeError | ValueError | KeyError | IndexError
  | ZeroDivisionError | OverflowError
  | ClientError int pystr
  | ExternalError pystr

text \<open>What \<open>request.get_json()\<close> and the exchange client return: decoded JSON.\<close>

datatype pyval =
    PNone
  | PBool bool
  | PInt int
  | PFloat pyfloat
  | PStr pystr
  | PList "pyval list"
  | PDict "(pystr \<times> pyval) list"

definition bind_exn :: "pyexn + 'a \<Rightarrow> ('a \<Rightarrow> pyexn + 'b) \<Rightarrow> pyexn + 'b" where
  "bind_exn m f = (case m of Inl e \<Rightarrow> Inl e | Inr v \<Rightarrow> f v)"

text \<open>Truth value of an object, as \<open>not data\<close> tests it.\<close>

fun truthy :: "pyval \<Rightarrow> bool" where
  "truthy PNone = False"
| "truthy (PBool b) = b"
| "truthy (PInt n) = (n \<noteq> 0)"
| "truthy (PFloat f) = (\<not> is_zero f)"
| "truthy (PStr s) = (s \<noteq> [])"
| "truthy (PList xs) = (xs \<noteq> [])"
| "truthy (PDict kvs) = (kvs \<noteq> [])"

text \<open>\<open>obj.get(key, default)\<close>: only a dict has the method.\<close>

fun py_get :: "pyval \<Rightarrow> pystr \<Rightarrow> pyval \<Rightarrow> pyexn + pyval" where
  "py_get (PDict kvs) k d = Inr (case map_of kvs k of None \<Rightarrow> d | Some v \<Rightarrow> v)"
| "py_get _ k d = Inl AttributeError"

text \<open>\<open>obj[key]\<close> with a string key.\<close>

fun py_getitem_str :: "pyval \<Rightarrow> pystr \<Rightarrow> pyexn + pyval" where
  "py_getitem_str (PDict kvs) k = (case map_of kvs k of None \<Rightarrow> Inl KeyError | Some v \<Rightarrow> Inr v)"
| "py_getitem_str _ k = Inl TypeError"

text \<open>
  \<open>obj[i]\<close> with a natural number \<open>i\<close>. The keys of a decoded JSON object are strings, so
  a number is never one of them.
\<close>

fun py_getitem_nat :: "pyval \<Rightarrow> nat \<Rightarrow> pyexn + pyval" where
  "py_getitem_nat (PList xs) i = (if i < length xs then Inr (xs ! i) else Inl IndexError)"
| "py_getitem_nat (PStr s) i = (if i < length s then Inr (PStr [s ! i]) else Inl IndexError)"
| "py_getitem_nat (PDict kvs) i = Inl KeyError"
| "py_getitem_nat _ i = Inl TypeError"

text \<open>The elements a \<open>for\<close> loop visits.\<close>

fun py_iter :: "pyval \<Rightarrow> pyexn + pyval list" where
  "py_iter (PList xs) = Inr xs"
| "py_iter (PStr s) = Inr (map (\<lambda>c. PStr [c]) s)"
| "py_iter (PDict kvs) = Inr (map PStr (remdups (map fst kvs)))"
| "py_iter _ = Inl TypeError"

text \<open>\<open>float(n)\<close> of an integer: correctly rounded, \<open>OverflowError\<close> beyond the range.\<close>

definition int_to_float :: "int \<Rightarrow> pyexn + pyfloat" where
  "int_to_float n = (if is_inf (b64_round (of_int n)) then Inl OverflowError
                     else Inr (b64_round (of_int n)))"

text \<open>\<open>a / b\<close> on floats: a zero divisor raises, whatever the dividend.\<close>

definition float_div :: "pyfloat \<Rightarrow> pyfloat \<Rightarrow> pyexn + pyfloat" where
  "float_div a b = (if is_zero b then Inl ZeroDivisionError else Inr (ieee_div a b))"

text \<open>\<open>n * b\<close> for an integer \<open>n\<close> and a float \<open>b\<close>: the integer is converted first.\<close>

definition int_mul_float :: "int \<Rightarrow> pyfloat \<Rightarrow> pyexn + pyfloat" where
  "int_mul_float n b = bind_exn (int_to_float n) (\<lambda>a. Inr (ieee_mul a b))"

text \<open>\<open>round(x)\<close> with one argument: an integer, ties to even.\<close>

fun py_round :: "pyfloat \<Rightarrow> pyexn + int" where
  "py_round (Fin x) = Inr (round_half_even x)"
| "py_round NegZero = Inr 0"
| "py_round NaN = Inl ValueError"
| "py_round _ = Inl OverflowError"

text \<open>\<open>x <= 0\<close> and \<open>x > 0\<close>; every comparison with a NaN is false.\<close>

fun float_le_zero :: "pyfloat \<Rightarrow> bool" where
  "float_le_zero (Fin x) = (x \<le> 0)"
| "float_le_zero NegZero = True"
| "float_le_zero NInf = True"
| "float_le_zero _ = False"

fun float_gt_zero :: "pyfloat \<Rightarrow> bool" where
  "float_gt_zero (Fin x) = (0 < x)"
| "float_gt_zero PInf = True"
| "float_gt_zero _ = False"

text \<open>\<open>str(n)\<close> of an integer: its decimal digits.\<close>

fun digits_nat :: "nat \<Rightarrow> pystr" where
  "digits_nat n = (if n < 10 then [48 + n] else digits_nat (n div 10) @ [48 + n mod 10])"

declare digits_nat.simps [simp del]

definition str_int :: "int \<Rightarrow> pystr" where
  "str_int i = (if i < 0 then 45 # digits_nat (nat (- i)) else digits_nat (nat i))"

section \<open>The program: \<open>app.py\<close>\<close>

subsection \<open>The world outside the handler\<close>

record embed =
  title :: pystr
  description :: pystr
  color :: nat

text \<open>The JSON body posted to the notification webhook; \<open>embeds = None\<close> is an absent key.\<close>

record payload =
  content :: pystr
  embeds :: "embed list option"

text \<open>
  What one request finds around it: the functions of the Python runtime that \<open>app.py\<close>
  calls on strings and for printing, the configuration read at start-up, and the answer
  of each collaborator (\<open>Inl\<close>, or \<open>Some\<close> for the post: the exception it raises).
\<close>

record env =
  str_upper :: "pystr \<Rightarrow> pystr"
  str_to_float :: "pystr \<Rightarrow> pyfloat option"
  float_str :: "pyfloat \<Rightarrow> pystr"
  val_str :: "pyval \<Rightarrow> pystr"
  exn_str :: "pyexn \<Rightarrow> pystr"
  DISCORD_WEBHOOK_URL :: "pystr option"
  get_json :: "pyexn + pyval"
  exchange_info :: "pyexn + pyval"
  new_order :: "pystr \<Rightarrow> pystr \<Rightarrow> pystr \<Rightarrow> pyfloat \<Rightarrow> pyexn + pyval"
  requests_post :: "pystr \<Rightarrow> payload \<Rightarrow> pyexn option"

datatype level = Info | Warning | Error

text \<open>What the handler does that can be seen from outside, in the order it does it.\<close>

datatype event =
    Log level pystr
  | Call_exchange_info
  | Call_new_order pystr pystr pystr pyfloat
  | Call_requests_post pystr payload

text \<open>A response: the JSON body and the HTTP status.\<close>

type_synonym response = "pyval \<times> nat"

text \<open>\<open>x.upper()\<close>: a method of strings only.\<close>

fun py_upper :: "env \<Rightarrow> pyval \<Rightarrow> pyexn + pystr" where
  "py_upper E (PStr s) = Inr (str_upper E s)"
| "py_upper E _ = Inl AttributeError"

text \<open>\<open>float(x)\<close>.\<close>

fun py_float :: "env \<Rightarrow> pyval \<Rightarrow> pyexn + pyfloat" where
  "py_float E PNone = Inl TypeError"
| "py_float E (PBool b) = Inr (Fin (if b then 1 else 0))"
| "py_float E (PInt n) = int_to_float n"
| "py_float E (PFloat f) = Inr f"
| "py_float E (PStr s) = (case str_to_float E s of None \<Rightarrow> Inl ValueError | Some f \<Rightarrow> Inr f)"
| "py_float E (PList xs) = Inl TypeError"
| "py_float E (PDict kvs) = Inl TypeError"

text \<open>A float literal of the source denotes the nearest binary64 number.\<close>

definition float_literal :: "rat \<Rightarrow> pyfloat" where
  "float_literal r = b64_round r"

subsection \<open>\<open>send_discord\<close>\<close>

definition send_discord :: "env \<Rightarrow> pystr \<Rightarrow> embed list option \<Rightarrow> event list" where
  "send_discord E message embeds_arg =
     (if DISCORD_WEBHOOK_URL E = None \<or> DISCORD_WEBHOOK_URL E = Some [] then
        [Log Warning (ustr ''Discord Webhook URL '' @ [0x672A, 0x8A2D, 0x5B9A])]
      else
        let url = the (DISCORD_WEBHOOK_URL E);
            p = \<lparr>content = message,
                 embeds = (if embeds_arg = None \<or> embeds_arg = Some [] then None else embeds_arg)\<rparr>
        in Call_requests_post url p #
           (case requests_post E url p of
              None \<Rightarrow> []
            | Some e \<Rightarrow>
                [Log Error (ustr ''Discord '' @ [0x767C, 0x9001, 0x5931, 0x6557] @ ustr '': '' @ exn_str E e)]))"

subsection \<open>\<open>get_symbol_info\<close>\<close>

definition default_info :: "pyfloat \<times> pyfloat" where
  "default_info = (float_literal (1 / 1000), float_literal (1 / 100))"

text \<open>The \<open>for\<close> loop over the symbols, with the \<open>return\<close> after it.\<close>

fun find_symbol :: "env \<Rightarrow> pystr \<Rightarrow> pyval list \<Rightarrow> pyexn + (pyfloat \<times> pyfloat)" where
  "find_symbol E symbol [] = Inr default_info"
| "find_symbol E symbol (s # rest) =
     (case py_getitem_str s (ustr ''symbol'') of
        Inl e \<Rightarrow> Inl e
      | Inr name \<Rightarrow>
          if name = PStr symbol then
            bind_exn (py_getitem_str s (ustr ''filters'')) (\<lambda>fs1.
            bind_exn (py_getitem_nat fs1 1) (\<lambda>lot.
            bind_exn (py_getitem_str lot (ustr ''stepSize'')) (\<lambda>v1.
            bind_exn (py_float E v1) (\<lambda>step_size.
            bind_exn (py_getitem_str s (ustr ''filters'')) (\<lambda>fs0.
            bind_exn (py_getitem_nat fs0 0) (\<lambda>pf.
            bind_exn (py_getitem_str pf (ustr ''tickSize'')) (\<lambda>v0.
            bind_exn (py_float E v0) (\<lambda>tick_size.
            Inr (step_size, tick_size)))))))))
          else find_symbol E symbol rest)"

text \<open>The body of the \<open>try\<close>.\<close>

definition get_symbol_info_try :: "env \<Rightarrow> pystr \<Rightarrow> pyexn + (pyfloat \<times> pyfloat)" where
  "get_symbol_info_try E symbol =
     bind_exn (exchange_info E) (\<lambda>info.
     bind_exn (py_getitem_str info (ustr ''symbols'')) (\<lambda>symbols.
     bind_exn (py_iter symbols) (find_symbol E symbol)))"

definition get_symbol_info :: "env \<Rightarrow> pystr \<Rightarrow> event list \<times> (pyfloat \<times> pyfloat)" where
  "get_symbol_info E symbol =
     (case get_symbol_info_try E symbol of
        Inr info \<Rightarrow> ([Call_exchange_info], info)
      | Inl e \<Rightarrow>
          ([Call_exchange_info,
            Log Error ([0x7372, 0x53D6] @ ustr '' '' @ symbol @ ustr '' '' @
                       [0x8CC7, 0x8A0A, 0x5931, 0x6557] @ ustr '': '' @ exn_str E e)],
           default_info))"

subsection \<open>\<open>round_step\<close>\<close>

definition round_step :: "pyfloat \<Rightarrow> pyfloat \<Rightarrow> pyexn + pyfloat" where
  "round_step value step =
     bind_exn (float_div value step) (\<lambda>q.
     bind_exn (py_round q) (\<lambda>n.
     int_mul_float n step))"

subsection \<open>\<open>webhook\<close>\<close>

definition jsonify_error :: "pystr \<Rightarrow> pyval" where
  "jsonify_error msg = PDict [(ustr ''error'', PStr msg)]"

definition msg_no_json :: pystr where
  "msg_no_json = [0x7121] @ ustr '' JSON '' @ [0x8CC7, 0x6599]"

definition msg_bad_side :: pystr where
  "msg_bad_side = ustr ''side '' @ [0x5FC5, 0x9808, 0x662F] @ ustr '' BUY '' @ [0x6216] @ ustr '' SELL''"

definition msg_bad_quantity :: pystr where
  "msg_bad_quantity = [0x8A08, 0x7B97, 0x51FA, 0x7684, 0x6578, 0x91CF] @ ustr '' <= 0''"

text \<open>Lines 63 to 68: the fields of the alert, in the order the source reads them.\<close>

definition alert_symbol :: "env \<Rightarrow> pyval \<Rightarrow> pyexn + pystr" where
  "alert_symbol E data =
     bind_exn (py_get data (ustr ''symbol'') (PStr (ustr ''BTCUSDT''))) (py_upper E)"

definition alert_side :: "env \<Rightarrow> pyval \<Rightarrow> pyexn + pystr" where
  "alert_side E data = bind_exn (py_get data (ustr ''side'') (PStr [])) (py_upper E)"

definition alert_price :: "env \<Rightarrow> pyval \<Rightarrow> pystr \<Rightarrow> pyexn + pyfloat" where
  "alert_price E data key = bind_exn (py_get data key PNone) (py_float E)"

definition webhook_fields ::
  "env \<Rightarrow> pyval \<Rightarrow> pyexn + (pystr \<times> pystr \<times> pyfloat \<times> pyfloat \<times> pyfloat \<times> pyfloat)" where
  "webhook_fields E data =
     bind_exn (alert_symbol E data) (\<lambda>symbol.
     bind_exn (alert_side E data) (\<lambda>side.
     bind_exn (alert_price E data (ustr ''entry'')) (\<lambda>entry.
     bind_exn (alert_price E data (ustr ''sl'')) (\<lambda>sl.
     bind_exn (alert_price E data (ustr ''tp1'')) (\<lambda>tp1.
     bind_exn (alert_price E data (ustr ''tp2'')) (\<lambda>tp2.
     Inr (symbol, side, entry, sl, tp1, tp2)))))))"

definition success_embed ::
  "env \<Rightarrow> pystr \<Rightarrow> pystr \<Rightarrow> pyfloat \<Rightarrow> pyfloat \<Rightarrow> pyfloat \<Rightarrow> pyfloat \<Rightarrow> pyfloat \<Rightarrow> embed" where
  "success_embed E symbol side quantity entry sl tp1 tp2 =
     \<lparr>title = [0x1F680] @ ustr '' '' @ [0x81EA, 0x52D5, 0x958B, 0x5009] @ ustr '' - '' @ symbol,
      description =
        [0x65B9, 0x5411] @ ustr '': '' @ (if side = ustr ''BUY'' then [0x591A] else [0x7A7A]) @
        [0xA, 0x6578, 0x91CF] @ ustr '': '' @ float_str E quantity @
        [0xA, 0x9032, 0x5834] @ ustr '': '' @ float_str E entry @
        [0xA, 0x6B62, 0x640D] @ ustr '': '' @ float_str E sl @
        [0xA] @ ustr ''TP1: '' @ float_str E tp1 @
        [0xA] @ ustr ''TP2: '' @ float_str E tp2,
      color = (if side = ustr ''BUY'' then 0x00FF00 else 0xFF0000)\<rparr>"

text \<open>
  Lines 77 to 80: the quantity for a notional value, \<open>notional / price\<close> rounded to the
  step. The source fixes the notional value to \<open>10.0\<close>, which binary64 holds exactly.
\<close>

definition order_size :: "pyfloat \<Rightarrow> pyfloat \<Rightarrow> pyfloat \<Rightarrow> pyexn + pyfloat" where
  "order_size price notional step_size =
     bind_exn (float_div notional price) (\<lambda>quantity. round_step quantity step_size)"

text \<open>Lines 73 to 111: the precision, sizing, the order and the success notification.\<close>

definition webhook_order ::
  "env \<Rightarrow> pystr \<Rightarrow> pystr \<Rightarrow> pyfloat \<Rightarrow> pyfloat \<Rightarrow> pyfloat \<Rightarrow> pyfloat
     \<Rightarrow> event list \<times> (pyexn + response)" where
  "webhook_order E symbol side entry sl tp1 tp2 =
     (let (t, step_size, tick_size) = get_symbol_info E symbol
      in case order_size entry (Fin 10) step_size of
           Inl e \<Rightarrow> (t, Inl e)
         | Inr quantity \<Rightarrow>
             if float_le_zero quantity then (t, Inr (jsonify_error msg_bad_quantity, 400))
             else
               (case new_order E symbol side (ustr ''MARKET'') quantity of
                  Inl e \<Rightarrow> (t @ [Call_new_order symbol side (ustr ''MARKET'') quantity], Inl e)
                | Inr order \<Rightarrow>
                    (t @ [Call_new_order symbol side (ustr ''MARKET'') quantity,
                          Log Info ([0x958B, 0x5009, 0x6210, 0x529F] @ ustr '': '' @ val_str E order)]
                       @ send_discord E [] (Some [success_embed E symbol side quantity entry sl tp1 tp2]),
                     Inr (PDict [(ustr ''status'', PStr (ustr ''success'')), (ustr ''order'', order)],
                          200))))"

text \<open>The body of the \<open>try\<close> of \<open>webhook\<close>.\<close>

definition webhook_try :: "env \<Rightarrow> event list \<times> (pyexn + response)" where
  "webhook_try E =
     (case get_json E of
        Inl e \<Rightarrow> ([], Inl e)
      | Inr data \<Rightarrow>
          if \<not> truthy data then ([], Inr (jsonify_error msg_no_json, 400))
          else
            let t = [Log Info ([0x6536, 0x5230, 0x8B66, 0x5831] @ ustr '': '' @ val_str E data)]
            in (case webhook_fields E data of
                  Inl e \<Rightarrow> (t, Inl e)
                | Inr (symbol, side, entry, sl, tp1, tp2) \<Rightarrow>
                    if side \<notin> set [ustr ''BUY'', ustr ''SELL''] then
                      (t, Inr (jsonify_error msg_bad_side, 400))
                    else
                      (case webhook_order E symbol side entry sl tp1 tp2 of
                         (t', r) \<Rightarrow> (t @ t', r))))"

text \<open>The two \<open>except\<close> clauses.\<close>

definition binance_error_msg :: "pystr \<Rightarrow> int \<Rightarrow> pystr" where
  "binance_error_msg message code =
     ustr ''Binance API '' @ [0x932F, 0x8AA4] @ ustr '': '' @ message @ ustr '' (code: '' @
     str_int code @ ustr '')''"

definition unknown_error_msg :: "env \<Rightarrow> pyexn \<Rightarrow> pystr" where
  "unknown_error_msg E e = [0x672A, 0x77E5, 0x932F, 0x8AA4] @ ustr '': '' @ exn_str E e"

definition order_failed_text :: "pystr \<Rightarrow> pystr" where
  "order_failed_text error_msg =
     [0x274C] @ ustr '' '' @ [0x958B, 0x5009, 0x5931, 0x6557] @ ustr '': '' @ error_msg"

definition system_error_text :: "pystr \<Rightarrow> pystr" where
  "system_error_text error_msg =
     [0x274C] @ ustr '' '' @ [0x7CFB, 0x7D71, 0x932F, 0x8AA4] @ ustr '': '' @ error_msg"

fun webhook_except :: "env \<Rightarrow> pyexn \<Rightarrow> event list \<times> response" where
  "webhook_except E (ClientError code message) =
     (let error_msg = binance_error_msg message code
      in (Log Error error_msg # send_discord E (order_failed_text error_msg) None,
          (jsonify_error error_msg, 400)))"
| "webhook_except E e =
     (let error_msg = unknown_error_msg E e
      in (Log Error error_msg # send_discord E (system_error_text error_msg) None,
          (jsonify_error error_msg, 500)))"

definition webhook :: "env \<Rightarrow> event list \<times> response" where
  "webhook E =
     (case webhook_try E of
        (t, Inr resp) \<Rightarrow> (t, resp)
      | (t, Inl e) \<Rightarrow> (case webhook_except E e of (t', resp) \<Rightarrow> (t @ t', resp)))"

section \<open>Observing a run\<close>

fun is_order :: "event \<Rightarrow> bool" where
  "is_order (Call_new_order symbol side type quantity) = True"
| "is_order _ = False"

text \<open>
  Each call of \<open>send_discord\<close> leaves exactly one of two marks: the post to the webhook,
  or the warning that no webhook is configured. Nothing else logs a warning.
\<close>

fun is_notification :: "event \<Rightarrow> bool" where
  "is_notification (Call_requests_post url p) = True"
| "is_notification (Log Warning msg) = True"
| "is_notification _ = False"

fun is_outbound :: "event \<Rightarrow> bool" where
  "is_outbound (Log l msg) = False"
| "is_outbound _ = True"

fun is_client_error :: "pyexn \<Rightarrow> bool" where
  "is_client_error (ClientError code message) = True"
| "is_client_error _ = False"

definition status :: "event list \<times> response \<Rightarrow> nat" where
  "status r = snd (snd r)"

definition body :: "event list \<times> response \<Rightarrow> pyval" where
  "body r = fst (snd r)"

definition has_error_field :: "pyval \<Rightarrow> bool" where
  "has_error_field b = (case b of PDict kvs \<Rightarrow> map_of kvs (ustr ''error'') \<noteq> None | _ \<Rightarrow> False)"

subsection \<open>A concrete world for examples\<close>

definition ascii_upper :: "pystr \<Rightarrow> pystr" where
  "ascii_upper s = map (\<lambda>c. if 97 \<le> c \<and> c \<le> 122 then c - 32 else c) s"

text \<open>
  A runtime that uppercases ASCII letters and reads no string as a number, a configured
  webhook that accepts every post, an exchange that lists one symbol (step 1/8, tick 1/2,
  as JSON numbers) and accepts every order.
\<close>

definition example_info :: pyval where
  "example_info =
     PDict [(ustr ''symbols'',
       PList [PDict [(ustr ''symbol'', PStr (ustr ''ETHUSDT'')),
                     (ustr ''filters'',
                        PList [PDict [(ustr ''tickSize'', PFloat (Fin (1 / 2)))],
                               PDict [(ustr ''stepSize'', PFloat (Fin (1 / 8)))]])]])]"

definition example_env :: "pyval \<Rightarrow> env" where
  "example_env data =
     \<lparr>str_upper = ascii_upper,
      str_to_float = (\<lambda>s. None),
      float_str = (\<lambda>f. ustr ''?''),
      val_str = (\<lambda>v. ustr ''?''),
      exn_str = (\<lambda>e. ustr ''?''),
      DISCORD_WEBHOOK_URL = Some (ustr ''https://discord.example/hook''),
      get_json = Inr data,
      exchange_info = Inr example_info,
      new_order = (\<lambda>symbol side type quantity. Inr (PDict [(ustr ''orderId'', PInt 1)])),
      requests_post = (\<lambda>url p. None)\<rparr>"

definition alert :: "pystr \<Rightarrow> pyval \<Rightarrow> pyval" where
  "alert side entry =
     PDict [(ustr ''symbol'', PStr (ustr ''ethusdt'')), (ustr ''side'', PStr side),
            (ustr ''entry'', entry), (ustr ''sl'', PFloat (Fin 90)),
            (ustr ''tp1'', PFloat (Fin 110)), (ustr ''tp2'', PFloat (Fin 120))]"

section \<open>Properties\<close>

subsection \<open>Bookkeeping\<close>

lemma send_discord_notification:
  "length (filter is_notification (send_discord E m es)) = 1"
  by (simp add: send_discord_def Let_def split: option.split)

lemma send_discord_no_order: "filter is_order (send_discord E m es) = []"
  by (simp add: send_discord_def Let_def split: option.split)

lemma get_symbol_info_quiet:
  "filter is_notification (fst (get_symbol_info E s)) = []"
  "filter is_order (fst (get_symbol_info E s)) = []"
  by (simp_all add: get_symbol_info_def split: sum.split)

text \<open>A request whose fields were read and whose side is valid goes on to the order.\<close>

lemma webhook_sized:
  assumes "get_json E = Inr data" "truthy data"
    and "webhook_fields E data = Inr (symbol, side, entry, sl, tp1, tp2)"
    and "side \<in> set [ustr ''BUY'', ustr ''SELL'']"
  shows "webhook E =
     (case webhook_order E symbol side entry sl tp1 tp2 of
        (t, Inr resp) \<Rightarrow>
          (Log Info ([0x6536, 0x5230, 0x8B66, 0x5831] @ ustr '': '' @ val_str E data) # t, resp)
      | (t, Inl e) \<Rightarrow>
          (Log Info ([0x6536, 0x5230, 0x8B66, 0x5831] @ ustr '': '' @ val_str E data) # t @
             fst (webhook_except E e),
           snd (webhook_except E e)))"
  using assms
  by (auto simp add: webhook_def webhook_try_def Let_def case_prod_beta split: sum.split)

text \<open>Reading the fields raises no client error, and succeeds on a non-empty body only.\<close>

lemma py_get_exn: "py_get d k v = Inl e \<Longrightarrow> \<not> is_client_error e"
  by (cases d) auto

lemma py_upper_exn: "py_upper E v = Inl e \<Longrightarrow> \<not> is_client_error e"
  by (cases v) auto

lemma py_float_exn: "py_float E v = Inl e \<Longrightarrow> \<not> is_client_error e"
  by (cases v) (auto simp: int_to_float_def split: if_splits option.splits)

lemma alert_symbol_exn: "alert_symbol E d = Inl e \<Longrightarrow> \<not> is_client_error e"
  by (auto simp: alert_symbol_def bind_exn_def split: sum.splits dest: py_get_exn py_upper_exn)

lemma alert_side_exn: "alert_side E d = Inl e \<Longrightarrow> \<not> is_client_error e"
  by (auto simp: alert_side_def bind_exn_def split: sum.splits dest: py_get_exn py_upper_exn)

lemma alert_price_exn: "alert_price E d k = Inl e \<Longrightarrow> \<not> is_client_error e"
  by (auto simp: alert_price_def bind_exn_def split: sum.splits dest: py_get_exn py_float_exn)

lemma webhook_fields_exn: "webhook_fields E d = Inl e \<Longrightarrow> \<not> is_client_error e"
  by (auto simp: webhook_fields_def bind_exn_def split: sum.splits
      dest: alert_symbol_exn alert_side_exn alert_price_exn)

lemma webhook_fields_parts:
  "webhook_fields E d = Inr (symbol, side, entry, sl, tp1, tp2) \<Longrightarrow>
     alert_symbol E d = Inr symbol \<and> alert_side E d = Inr side
     \<and> alert_price E d (ustr ''entry'') = Inr entry \<and> alert_price E d (ustr ''sl'') = Inr sl
     \<and> alert_price E d (ustr ''tp1'') = Inr tp1 \<and> alert_price E d (ustr ''tp2'') = Inr tp2"
  by (auto simp: webhook_fields_def bind_exn_def split: sum.splits)

lemma alert_price_truthy: "alert_price E d k = Inr v \<Longrightarrow> truthy d"
  by (cases d) (auto simp: alert_price_def bind_exn_def split: option.splits)

lemma webhook_fields_truthy: "webhook_fields E d = Inr x \<Longrightarrow> truthy d"
  by (cases x) (auto dest!: webhook_fields_parts alert_price_truthy)

text \<open>The catch-all clause.\<close>

lemma webhook_except_other:
  "\<not> is_client_error e \<Longrightarrow>
     webhook_except E e =
       (Log Error (unknown_error_msg E e) #
          send_discord E (system_error_text (unknown_error_msg E e)) None,
        (jsonify_error (unknown_error_msg E e), 500))"
  by (cases e) (simp_all add: Let_def)

lemma webhook_except_quiet: "filter is_order (fst (webhook_except E e)) = []"
  by (cases e) (simp_all add: Let_def send_discord_no_order)

lemma webhook_except_notification:
  "length (filter is_notification (fst (webhook_except E e))) = 1"
  by (cases e) (simp_all add: Let_def send_discord_notification)

text \<open>A request whose fields cannot be read ends in the catch-all clause.\<close>

lemma webhook_fields_raise:
  assumes "get_json E = Inr data" "truthy data" "webhook_fields E data = Inl e"
  shows "webhook E =
     (Log Info ([0x6536, 0x5230, 0x8B66, 0x5831] @ ustr '': '' @ val_str E data) #
        Log Error (unknown_error_msg E e) #
        send_discord E (system_error_text (unknown_error_msg E e)) None,
      (jsonify_error (unknown_error_msg E e), 500))"
  using assms webhook_except_other [OF webhook_fields_exn [OF assms(3)], of E]
  by (simp add: webhook_def webhook_try_def Let_def)

text \<open>Arithmetic on a zero.\<close>

lemma round_half_even_0 [simp]: "round_half_even 0 = 0"
  by (simp add: round_half_even_def)

lemma b64_round_0 [simp]: "b64_round 0 = Fin 0"
  by (simp add: b64_round_def)

lemma int_to_float_0 [simp]: "int_to_float 0 = Inr (Fin 0)"
  by (simp add: int_to_float_def)

lemma round_step_zero:
  "0 < s \<Longrightarrow> round_step (Fin 0) (Fin s) = Inr (Fin 0)"
  by (simp add: round_step_def float_div_def ieee_div_def ieee_mul_def int_mul_float_def
      signed_zero_def bind_exn_def)

text \<open>The example world, evaluated.\<close>

lemma example_fields:
  "webhook_fields (example_env d) (alert side (PFloat entry)) =
     Inr (ustr ''ETHUSDT'', ascii_upper side, entry, Fin 90, Fin 110, Fin 120)"
  by (simp add: webhook_fields_def alert_symbol_def alert_side_def alert_price_def alert_def
      example_env_def bind_exn_def ascii_upper_def)

lemma example_symbol_info:
  "get_symbol_info (example_env d) (ustr ''ETHUSDT'') = ([Call_exchange_info], Fin (1 / 8), Fin (1 / 2))"
  by (simp add: get_symbol_info_def get_symbol_info_try_def example_env_def example_info_def
      bind_exn_def)

subsection \<open>Sizing failure\<close>

text \<open>
  C6. A request whose quantity, after rounding to the step, is not positive is answered
  with status 400 and the quantity message; no order is submitted and no notification is
  attempted.
\<close>

theorem sizing_failure_400:
  assumes "get_json E = Inr data" "truthy data"
    and "webhook_fields E data = Inr (symbol, side, entry, sl, tp1, tp2)"
    and "side \<in> set [ustr ''BUY'', ustr ''SELL'']"
    and "order_size entry (Fin 10) (fst (snd (get_symbol_info E symbol))) = Inr quantity"
    and "float_le_zero quantity"
  shows "snd (webhook E) = (jsonify_error msg_bad_quantity, 400)
       \<and> filter is_order (fst (webhook E)) = []
       \<and> filter is_notification (fst (webhook E)) = []"
proof -
  have "webhook_order E symbol side entry sl tp1 tp2 =
          (fst (get_symbol_info E symbol), Inr (jsonify_error msg_bad_quantity, 400))"
    using assms(5,6) by (simp add: webhook_order_def case_prod_beta)
  then show ?thesis
    using webhook_sized [OF assms(1-4)] by (simp add: get_symbol_info_quiet)
qed

text \<open>An entry price of infinity gives the quantity 0.\<close>

theorem sizing_failure_400_witness:
  "snd (webhook (example_env (alert (ustr ''buy'') (PFloat PInf)))) =
     (jsonify_error msg_bad_quantity, 400)
   \<and> filter is_order (fst (webhook (example_env (alert (ustr ''buy'') (PFloat PInf))))) = []
   \<and> filter is_notification (fst (webhook (example_env (alert (ustr ''buy'') (PFloat PInf))))) = []"
proof (rule sizing_failure_400)
  show "get_json (example_env (alert (ustr ''buy'') (PFloat PInf))) =
          Inr (alert (ustr ''buy'') (PFloat PInf))"
    by (simp add: example_env_def)
  show "truthy (alert (ustr ''buy'') (PFloat PInf))"
    by (simp add: alert_def)
  show "webhook_fields (example_env (alert (ustr ''buy'') (PFloat PInf)))
          (alert (ustr ''buy'') (PFloat PInf)) =
        Inr (ustr ''ETHUSDT'', ustr ''BUY'', PInf, Fin 90, Fin 110, Fin 120)"
    by (simp add: example_fields ascii_upper_def)
  show "ustr ''BUY'' \<in> set [ustr ''BUY'', ustr ''SELL'']"
    by simp
  show "order_size PInf (Fin 10)
          (fst (snd (get_symbol_info (example_env (alert (ustr ''buy'') (PFloat PInf)))
             (ustr ''ETHUSDT'')))) = Inr (Fin 0)"
    by (simp add: example_symbol_info [simplified] order_size_def float_div_def ieee_div_def
        signed_zero_def round_step_zero bind_exn_def)
  show "float_le_zero (Fin 0)"
    by simp
qed

end
